theory Spec2Isabelle
  imports Complex_Main
begin

section \<open>Conventions of the embedding\<close>

text \<open>
  The TypeScript classes of the CRM and Sales bounded contexts are embedded as follows.

  \<^item> A class with private fields is a \<^theory_text>\<open>record\<close>; the getters are the record's
    selectors. A field whose name is shared by two classes, or is the name of a HOL
    constant, carries the class as a suffix (\<open>id_ProductId\<close>, \<open>id_SalesOrder\<close>,
    \<open>currency_SalesOrder\<close>).
  \<^item> In the embedding of the order, of its items and of Money, the type \<open>number\<close> is
    the type \<open>real\<close>: finite values with exact arithmetic. The constructor and the
    arithmetic of Money are embedded a second time over the type \<open>number\<close> of the
    section on all numbers, which adds \<open>NaN\<close> and the two infinities to the finite
    values, with the comparisons and the arithmetic of IEEE 754 on them and with
    overflow to an infinity. The rounding of a finite result and the negative zero are
    not represented.
  \<^item> A \<open>string\<close> is a list of 8-bit code units.
  \<^item> \<open>throw\<close> is a value: a constructor or a pure method returns \<open>error + 'a\<close>
    (\<open>Inl\<close> the error); a method of the aggregate that may mutate it returns the
    outcome together with the order as it is after the call,
    \<open>(error + 'a) \<times> SalesOrder\<close>.
  \<^item> Every \<open>throw new Error(message)\<close> of the source has one constructor of the type
    \<open>error\<close>, which carries the values the message interpolates.
  \<^item> \<open>crypto.randomUUID()\<close> and \<open>new Date()\<close> are inputs: a function that calls one
    of them takes the value it returns as an argument (\<open>uuid\<close>, \<open>now\<close>).
\<close>

datatype SalesOrderState = PENDING | CONFIRMED | SHIPPED | CANCELED

datatype error =
    AmountNegative real
      \<comment> \<open>Money: \<open>Amount cannot be negative: ${amount}\<close>\<close>
  | FactorNegative real
      \<comment> \<open>Money.multiply: \<open>Factor cannot be negative: ${factor}\<close>\<close>
  | CurrencyMismatch string string
      \<comment> \<open>Money.add: \<open>Cannot add amounts with different currencies: ${a} and ${b}\<close>\<close>
  | ItemQuantityNotPositive real
      \<comment> \<open>SalesOrderItem: \<open>Quantity must be greater than zero: ${quantity}\<close>\<close>
  | InvalidDate
      \<comment> \<open>DateTime: \<open>Invalid date: ${parsedDate}\<close>\<close>
  | FutureDate int
      \<comment> \<open>DateTime: \<open>Date cannot be in the future: ${parsedDate}\<close>\<close>
  | CustomerIdEmpty string
      \<comment> \<open>SalesOrder: \<open>Customer ID cannot be empty: ${customerId}\<close>\<close>
  | AddItemNotAllowed SalesOrderState
      \<comment> \<open>addItem: \<open>Cannot add items to an order that is ${state}\<close>\<close>
  | ProductIdEmpty
      \<comment> \<open>addItem: \<open>Product ID cannot be empty\<close>\<close>
  | QuantityNotPositive
      \<comment> \<open>addItem: \<open>Quantity must be greater than zero\<close>\<close>
  | UnitPriceNegative
      \<comment> \<open>addItem: \<open>Unit price amount cannot be negative\<close>\<close>
  | CannotConfirm SalesOrderState
      \<comment> \<open>confirm: \<open>Cannot confirm an order that is ${state}\<close>\<close>
  | CannotShip SalesOrderState
      \<comment> \<open>ship: \<open>Cannot ship an order that is ${state}\<close>\<close>
  | CannotCancel SalesOrderState
      \<comment> \<open>cancel: \<open>Cannot cancel an order that is ${state}\<close>\<close>

subsection \<open>String.prototype.trim\<close>

text \<open>
  The white space and line terminator code units below 256 that \<open>trim\<close> removes:
  TAB, LF, VT, FF, CR, SP and NBSP.
\<close>

definition isWhiteSpace :: "char \<Rightarrow> bool" where
  "isWhiteSpace c = (of_char c \<in> {9, 10, 11, 12, 13, 32, 160 :: nat})"

definition trim :: "string \<Rightarrow> string" where
  "trim s = rev (dropWhile isWhiteSpace (rev (dropWhile isWhiteSpace s)))"

section \<open>shared/domain/model: Currency and Money\<close>

text \<open>
  \<open>UpperCaseLetter\<close> and \<open>CurrencyCode\<close> are types of the source, checked by the
  compiler and erased at run time; here they are predicates on the run-time values.
\<close>

definition UpperCaseLetter :: "char \<Rightarrow> bool" where
  "UpperCaseLetter c = (c \<in> set ''ABCDEFGHIJKLMNOPQRSTUVWXYZ'')"

definition CurrencyCode :: "string \<Rightarrow> bool" where
  "CurrencyCode s =
     (case s of
        [a, b, c] \<Rightarrow> UpperCaseLetter a \<and> UpperCaseLetter b \<and> UpperCaseLetter c
      | _ \<Rightarrow> False)"

record Currency =
  code :: string

text \<open>The constructor only stores its argument.\<close>

definition new_Currency :: "string \<Rightarrow> error + Currency" where
  "new_Currency c = Inr \<lparr>code = c\<rparr>"

definition Currency_toString :: "Currency \<Rightarrow> string" where
  "Currency_toString self = code self"

record Money =
  amount :: real
  currency :: Currency

definition new_Money :: "real \<Rightarrow> Currency \<Rightarrow> error + Money" where
  "new_Money a c =
     (if a < 0 then Inl (AmountNegative a)
      else Inr \<lparr>amount = a, currency = c\<rparr>)"

definition Money_add :: "Money \<Rightarrow> Money \<Rightarrow> error + Money" where
  "Money_add self other =
     (if code (currency self) \<noteq> code (currency other)
      then Inl (CurrencyMismatch (code (currency self)) (code (currency other)))
      else new_Money (amount self + amount other) (currency self))"

definition Money_multiply :: "Money \<Rightarrow> real \<Rightarrow> error + Money" where
  "Money_multiply self factor =
     (if factor < 0 then Inl (FactorNegative factor)
      else new_Money (amount self * factor) (currency self))"

section \<open>sales/domain/model: ProductId, SalesOrderItem, SalesOrder\<close>

record ProductId =
  id_ProductId :: string

text \<open>\<open>id ?? crypto.randomUUID()\<close>: the argument when there is one, else the fresh value.\<close>

definition new_ProductId :: "string option \<Rightarrow> string \<Rightarrow> error + ProductId" where
  "new_ProductId arg uuid =
     Inr \<lparr>id_ProductId = (case arg of Some s \<Rightarrow> s | None \<Rightarrow> uuid)\<rparr>"

record SalesOrderItem =
  orderId :: string
  itemId :: string
  productId :: ProductId
  quantity :: real
  unitPrice :: Money

definition new_SalesOrderItem ::
  "string \<Rightarrow> ProductId \<Rightarrow> real \<Rightarrow> Money \<Rightarrow> string \<Rightarrow> error + SalesOrderItem" where
  "new_SalesOrderItem oid pid qty price uuid =
     (if qty \<le> 0 then Inl (ItemQuantityNotPositive qty)
      else Inr \<lparr>orderId = oid, itemId = uuid, productId = pid,
                 quantity = qty, unitPrice = price\<rparr>)"

definition calculateItemTotal :: "SalesOrderItem \<Rightarrow> error + Money" where
  "calculateItemTotal self =
     new_Money (amount (unitPrice self) * quantity self) (currency (unitPrice self))"

text \<open>
  \<open>DateTime\<close> wraps a point in time (milliseconds). The argument of its constructor is
  \<open>None\<close> when the value is absent (or falsy), and otherwise what \<open>new Date(value)\<close>
  gives: no time at all for an unparsable value, or a time.
\<close>

datatype ParsedDate = NotADate | TimeValue int

record DateTime =
  date :: int

definition new_DateTime :: "int \<Rightarrow> ParsedDate option \<Rightarrow> error + DateTime" where
  "new_DateTime now v =
     (case v of
        None \<Rightarrow> Inr \<lparr>date = now\<rparr>
      | Some NotADate \<Rightarrow> Inl InvalidDate
      | Some (TimeValue t) \<Rightarrow>
          (if t > now then Inl (FutureDate t) else Inr \<lparr>date = t\<rparr>))"

record SalesOrder =
  customerId :: string
  id_SalesOrder :: string
  items :: "SalesOrderItem list"
  orderedAt :: DateTime
  currency_SalesOrder :: Currency
  state :: SalesOrderState

definition new_SalesOrder ::
  "string \<Rightarrow> Currency \<Rightarrow> ParsedDate option \<Rightarrow> int \<Rightarrow> string \<Rightarrow> error + SalesOrder" where
  "new_SalesOrder cid cur ordered now uuid =
     (if cid = [] \<or> trim cid = [] then Inl (CustomerIdEmpty cid)
      else (case new_DateTime now ordered of
          Inl e \<Rightarrow> Inl e
        | Inr d \<Rightarrow>
            Inr \<lparr>customerId = cid, id_SalesOrder = uuid, items = [], orderedAt = d,
                 currency_SalesOrder = cur, state = PENDING\<rparr>))"

definition canAddItems :: "SalesOrder \<Rightarrow> bool" where
  "canAddItems self = (state self \<noteq> CANCELED \<and> state self \<noteq> SHIPPED)"

text \<open>The setter of \<open>state\<close>: \<open>this._state = newState\<close>.\<close>

definition set_state :: "SalesOrder \<Rightarrow> SalesOrderState \<Rightarrow> (error + unit) \<times> SalesOrder" where
  "set_state self newState = (Inr (), self\<lparr>state := newState\<rparr>)"

text \<open>
  \<open>addItem\<close>: the product identity is \<open>None\<close> for \<open>null\<close> or \<open>undefined\<close>, the one
  value for which \<open>!productId\<close> holds.
\<close>

definition addItem ::
  "SalesOrder \<Rightarrow> ProductId option \<Rightarrow> real \<Rightarrow> real \<Rightarrow> string \<Rightarrow> (error + unit) \<times> SalesOrder" where
  "addItem self pid qty unitPriceAmount uuid =
     (if \<not> canAddItems self then (Inl (AddItemNotAllowed (state self)), self)
      else (case pid of
          None \<Rightarrow> (Inl ProductIdEmpty, self)
        | Some p \<Rightarrow>
            (if trim (id_ProductId p) = [] then (Inl ProductIdEmpty, self)
             else if qty \<le> 0 then (Inl QuantityNotPositive, self)
             else if unitPriceAmount < 0 then (Inl UnitPriceNegative, self)
             else (case new_Money unitPriceAmount (currency_SalesOrder self) of
                 Inl e \<Rightarrow> (Inl e, self)
               | Inr price \<Rightarrow>
                   (case new_SalesOrderItem (id_SalesOrder self) p qty price uuid of
                      Inl e \<Rightarrow> (Inl e, self)
                    | Inr item \<Rightarrow> (Inr (), self\<lparr>items := items self @ [item]\<rparr>))))))"

text \<open>
  \<open>this._items.reduce((total, item) => total.add(item.calculateItemTotal()), init)\<close>:
  a left fold that stops at the first error.
\<close>

fun reduce_items :: "SalesOrderItem list \<Rightarrow> Money \<Rightarrow> error + Money" where
  "reduce_items [] tot = Inr tot"
| "reduce_items (item # rest) tot =
     (case calculateItemTotal item of
        Inl e \<Rightarrow> Inl e
      | Inr t \<Rightarrow>
          (case Money_add tot t of
             Inl e \<Rightarrow> Inl e
           | Inr tot' \<Rightarrow> reduce_items rest tot'))"

definition calculateTotalAmount :: "SalesOrder \<Rightarrow> (error + Money) \<times> SalesOrder" where
  "calculateTotalAmount self =
     ((case new_Money 0 (currency_SalesOrder self) of
         Inl e \<Rightarrow> Inl e
       | Inr zero \<Rightarrow> reduce_items (items self) zero),
      self)"

definition confirm :: "SalesOrder \<Rightarrow> (error + unit) \<times> SalesOrder" where
  "confirm self =
     (if state self = PENDING then (Inr (), self\<lparr>state := CONFIRMED\<rparr>)
      else (Inl (CannotConfirm (state self)), self))"

definition ship :: "SalesOrder \<Rightarrow> (error + unit) \<times> SalesOrder" where
  "ship self =
     (if state self = CONFIRMED then (Inr (), self\<lparr>state := SHIPPED\<rparr>)
      else (Inl (CannotShip (state self)), self))"

definition cancel :: "SalesOrder \<Rightarrow> (error + unit) \<times> SalesOrder" where
  "cancel self =
     (if state self = PENDING \<or> state self = CANCELED
      then (Inl (CannotCancel (state self)), self)
      else (Inr (), self\<lparr>state := CANCELED\<rparr>))"

section \<open>Money over all numbers\<close>

text \<open>
  A \<open>number\<close> of the source is a finite value, an infinity or \<open>NaN\<close>. A finite
  result of an addition or a multiplication whose magnitude reaches
  \<open>2^1024 - 2^970\<close>, half a unit in the last place above the largest finite value,
  is the infinity of its sign; a smaller one is kept as it is.
\<close>

datatype number = Finite real | PosInfinity | NegInfinity | NaN

definition overflow_threshold :: real where
  "overflow_threshold = 2 ^ 1024 - 2 ^ 970"

definition overflow :: "real \<Rightarrow> number" where
  "overflow x =
     (if overflow_threshold \<le> x then PosInfinity
      else if x \<le> - overflow_threshold then NegInfinity
      else Finite x)"

text \<open>\<open>x < y\<close> and \<open>x >= y\<close>: both are false when an operand is \<open>NaN\<close>.\<close>

fun number_less :: "number \<Rightarrow> number \<Rightarrow> bool" where
  "number_less NaN y = False"
| "number_less x NaN = False"
| "number_less (Finite a) (Finite b) = (a < b)"
| "number_less (Finite a) PosInfinity = True"
| "number_less (Finite a) NegInfinity = False"
| "number_less PosInfinity y = False"
| "number_less NegInfinity (Finite b) = True"
| "number_less NegInfinity PosInfinity = True"
| "number_less NegInfinity NegInfinity = False"

fun number_greater_equal :: "number \<Rightarrow> number \<Rightarrow> bool" where
  "number_greater_equal NaN y = False"
| "number_greater_equal x NaN = False"
| "number_greater_equal (Finite a) (Finite b) = (b \<le> a)"
| "number_greater_equal (Finite a) PosInfinity = False"
| "number_greater_equal (Finite a) NegInfinity = True"
| "number_greater_equal PosInfinity y = True"
| "number_greater_equal NegInfinity (Finite b) = False"
| "number_greater_equal NegInfinity PosInfinity = False"
| "number_greater_equal NegInfinity NegInfinity = True"

text \<open>\<open>x + y\<close> and \<open>x * y\<close>: \<open>NaN\<close> is absorbing, and so are the sum of the two
  infinities and the product of an infinity and zero.\<close>

fun number_plus :: "number \<Rightarrow> number \<Rightarrow> number" where
  "number_plus NaN y = NaN"
| "number_plus x NaN = NaN"
| "number_plus (Finite a) (Finite b) = overflow (a + b)"
| "number_plus (Finite a) y = y"
| "number_plus x (Finite b) = x"
| "number_plus PosInfinity PosInfinity = PosInfinity"
| "number_plus NegInfinity NegInfinity = NegInfinity"
| "number_plus PosInfinity NegInfinity = NaN"
| "number_plus NegInfinity PosInfinity = NaN"

fun number_times :: "number \<Rightarrow> number \<Rightarrow> number" where
  "number_times NaN y = NaN"
| "number_times x NaN = NaN"
| "number_times (Finite a) (Finite b) = overflow (a * b)"
| "number_times (Finite a) PosInfinity =
     (if a = 0 then NaN else if 0 < a then PosInfinity else NegInfinity)"
| "number_times (Finite a) NegInfinity =
     (if a = 0 then NaN else if 0 < a then NegInfinity else PosInfinity)"
| "number_times PosInfinity (Finite b) =
     (if b = 0 then NaN else if 0 < b then PosInfinity else NegInfinity)"
| "number_times NegInfinity (Finite b) =
     (if b = 0 then NaN else if 0 < b then NegInfinity else PosInfinity)"
| "number_times PosInfinity PosInfinity = PosInfinity"
| "number_times PosInfinity NegInfinity = NegInfinity"
| "number_times NegInfinity PosInfinity = NegInfinity"
| "number_times NegInfinity NegInfinity = PosInfinity"

text \<open>
  The class Money of currency.ts, lines 88 to 154, over these numbers: the same
  statements as \<open>new_Money\<close>, \<open>Money_add\<close> and \<open>Money_multiply\<close>, with \<open>number_less\<close>,
  \<open>number_plus\<close> and \<open>number_times\<close> for \<open><\<close>, \<open>+\<close> and \<open>*\<close>.
\<close>

datatype error_number =
    AmountNegative_number number
      \<comment> \<open>Money: \<open>Amount cannot be negative: ${amount}\<close>\<close>
  | FactorNegative_number number
      \<comment> \<open>Money.multiply: \<open>Factor cannot be negative: ${factor}\<close>\<close>
  | CurrencyMismatch_number string string
      \<comment> \<open>Money.add: \<open>Cannot add amounts with different currencies: ${a} and ${b}\<close>\<close>

record Money_number =
  amount_number :: number
  currency_number :: Currency

definition new_Money_number :: "number \<Rightarrow> Currency \<Rightarrow> error_number + Money_number" where
  "new_Money_number a c =
     (if number_less a (Finite 0) then Inl (AmountNegative_number a)
      else Inr \<lparr>amount_number = a, currency_number = c\<rparr>)"

definition Money_add_number ::
  "Money_number \<Rightarrow> Money_number \<Rightarrow> error_number + Money_number" where
  "Money_add_number self other =
     (if code (currency_number self) \<noteq> code (currency_number other)
      then Inl (CurrencyMismatch_number (code (currency_number self))
                 (code (currency_number other)))
      else new_Money_number (number_plus (amount_number self) (amount_number other))
             (currency_number self))"

definition Money_multiply_number ::
  "Money_number \<Rightarrow> number \<Rightarrow> error_number + Money_number" where
  "Money_multiply_number self factor =
     (if number_less factor (Finite 0) then Inl (FactorNegative_number factor)
      else new_Money_number (number_times (amount_number self) factor)
             (currency_number self))"

section \<open>Notions used to state the properties\<close>

text \<open>
  A product identity is blank when it is missing or when every code unit of its id is
  white space, which is when \<open>!productId || productId.id.trim() === ''\<close> holds
  (lemma \<open>trim_blank\<close>).
\<close>

definition blankProductId :: "ProductId option \<Rightarrow> bool" where
  "blankProductId p =
     (case p of None \<Rightarrow> True | Some x \<Rightarrow> list_all isWhiteSpace (id_ProductId x))"

text \<open>
  The orders a client can build: one made by the constructor, then any sequence of calls
  of the public methods and of the setter of \<open>state\<close>. A call that throws leaves the
  order as the second component says.
\<close>

inductive reachable :: "SalesOrder \<Rightarrow> bool" where
  created: "new_SalesOrder cid cur ordered now uuid = Inr ord \<Longrightarrow> reachable ord"
| added: "reachable ord \<Longrightarrow> reachable (snd (addItem ord p q a uuid))"
| confirmed: "reachable ord \<Longrightarrow> reachable (snd (confirm ord))"
| shipped: "reachable ord \<Longrightarrow> reachable (snd (ship ord))"
| canceled: "reachable ord \<Longrightarrow> reachable (snd (cancel ord))"
| state_set: "reachable ord \<Longrightarrow> reachable (snd (set_state ord s))"

text \<open>Every item carries the currency of the order, a price that is not negative and
  a positive quantity.\<close>

definition items_wf :: "SalesOrder \<Rightarrow> bool" where
  "items_wf ord =
     list_all
       (\<lambda>i. currency (unitPrice i) = currency_SalesOrder ord \<and>
            0 \<le> amount (unitPrice i) \<and> 0 < quantity i)
       (items ord)"

subsection \<open>The orders of the user stories\<close>

definition usd :: Currency where
  "usd = \<lparr>code = ''USD''\<rparr>"

definition pen :: Currency where
  "pen = \<lparr>code = ''PEN''\<rparr>"

definition product1 :: ProductId where
  "product1 = \<lparr>id_ProductId = ''product-1''\<rparr>"

definition product2 :: ProductId where
  "product2 = \<lparr>id_ProductId = ''product-2''\<rparr>"

definition product_blank :: ProductId where
  "product_blank = \<lparr>id_ProductId = ''  ''\<rparr>"

definition order_pending :: SalesOrder where
  "order_pending =
     \<lparr>customerId = ''cust-1'', id_SalesOrder = ''order-1'', items = [],
      orderedAt = \<lparr>date = 0\<rparr>, currency_SalesOrder = usd, state = PENDING\<rparr>"

definition item1 :: SalesOrderItem where
  "item1 =
     \<lparr>orderId = ''order-1'', itemId = ''item-1'', productId = product1, quantity = 2,
      unitPrice = \<lparr>amount = 100, currency = usd\<rparr>\<rparr>"

definition item2 :: SalesOrderItem where
  "item2 =
     \<lparr>orderId = ''order-1'', itemId = ''item-2'', productId = product2, quantity = 20,
      unitPrice = \<lparr>amount = 50, currency = usd\<rparr>\<rparr>"

definition order_two_items :: SalesOrder where
  "order_two_items = order_pending\<lparr>items := [item1, item2]\<rparr>"

definition order_confirmed :: SalesOrder where
  "order_confirmed = order_pending\<lparr>state := CONFIRMED\<rparr>"

definition order_shipped :: SalesOrder where
  "order_shipped = order_pending\<lparr>state := SHIPPED\<rparr>"

definition order_canceled :: SalesOrder where
  "order_canceled = order_pending\<lparr>state := CANCELED\<rparr>"

section \<open>Auxiliary facts\<close>

lemma trim_blank: "trim s = [] \<longleftrightarrow> list_all isWhiteSpace s"
proof
  assume "trim s = []"
  then have a: "\<forall>x\<in>set (dropWhile isWhiteSpace s). isWhiteSpace x"
    by (simp add: trim_def dropWhile_eq_Nil_conv)
  have "dropWhile isWhiteSpace s = []"
  proof (rule ccontr)
    assume n: "dropWhile isWhiteSpace s \<noteq> []"
    then have "\<not> isWhiteSpace (hd (dropWhile isWhiteSpace s))" by (rule hd_dropWhile)
    moreover have "hd (dropWhile isWhiteSpace s) \<in> set (dropWhile isWhiteSpace s)"
      using n by simp
    ultimately show False using a by blast
  qed
  then show "list_all isWhiteSpace s"
    by (simp add: dropWhile_eq_Nil_conv list_all_iff)
next
  assume "list_all isWhiteSpace s"
  then show "trim s = []"
    by (auto simp: trim_def dropWhile_eq_Nil_conv list_all_iff dest: set_dropWhileD)
qed

lemma new_Money_Inr:
  "new_Money a c = Inr m \<Longrightarrow> 0 \<le> a \<and> m = \<lparr>amount = a, currency = c\<rparr>"
  by (auto simp: new_Money_def split: if_splits)

lemma addItem_ok:
  assumes "canAddItems ord" and "trim (id_ProductId x) \<noteq> []" and "0 < q" and "0 \<le> a"
  shows "addItem ord (Some x) q a uuid =
    (Inr (), ord\<lparr>items := items ord @
       [\<lparr>orderId = id_SalesOrder ord, itemId = uuid, productId = x, quantity = q,
         unitPrice = \<lparr>amount = a, currency = currency_SalesOrder ord\<rparr>\<rparr>]\<rparr>)"
  using assms by (simp add: addItem_def new_Money_def new_SalesOrderItem_def)

lemma addItem_cases:
  "addItem ord p q a uuid = (r, ord') \<Longrightarrow>
     (ord' = ord \<and> (\<exists>e. r = Inl e)) \<or>
     (\<exists>x. p = Some x \<and> canAddItems ord \<and> trim (id_ProductId x) \<noteq> [] \<and>
        0 < q \<and> 0 \<le> a \<and> r = Inr () \<and>
        ord' = ord\<lparr>items := items ord @
          [\<lparr>orderId = id_SalesOrder ord, itemId = uuid, productId = x, quantity = q,
            unitPrice = \<lparr>amount = a, currency = currency_SalesOrder ord\<rparr>\<rparr>]\<rparr>)"
  by (auto simp: addItem_def new_Money_def new_SalesOrderItem_def
      split: if_splits option.splits)

lemma addItem_items_wf:
  assumes wf: "items_wf ord"
  shows "items_wf (snd (addItem ord p q a uuid))"
proof -
  obtain r ord' where eq: "addItem ord p q a uuid = (r, ord')"
    by (cases "addItem ord p q a uuid")
  from addItem_cases [OF eq] wf have "items_wf ord'"
    by (auto simp: items_wf_def)
  then show ?thesis by (simp add: eq)
qed

lemma reachable_items_wf: "reachable ord \<Longrightarrow> items_wf ord"
proof (induction rule: reachable.induct)
  case (created cid cur ordered now uuid ord)
  then show ?case
    by (auto simp: new_SalesOrder_def items_wf_def split: if_splits sum.splits)
next
  case (added ord p q a uuid)
  then show ?case by (simp add: addItem_items_wf)
next
  case (confirmed ord)
  then show ?case by (simp add: confirm_def items_wf_def)
next
  case (shipped ord)
  then show ?case by (simp add: ship_def items_wf_def)
next
  case (canceled ord)
  then show ?case by (simp add: cancel_def items_wf_def)
next
  case (state_set ord s)
  then show ?case by (simp add: set_state_def items_wf_def)
qed

lemma reduce_items_fold:
  assumes "list_all (\<lambda>i. currency (unitPrice i) = c \<and> 0 \<le> amount (unitPrice i) \<and>
             0 < quantity i) xs"
    and "0 \<le> t"
  shows "reduce_items xs \<lparr>amount = t, currency = c\<rparr> =
     Inr \<lparr>amount = foldl (\<lambda>total item. total + amount (unitPrice item) * quantity item) t xs,
          currency = c\<rparr>"
  using assms
proof (induction xs arbitrary: t)
  case Nil
  then show ?case by simp
next
  case (Cons i xs)
  then have nn: "0 \<le> amount (unitPrice i) * quantity i" by simp
  have it: "calculateItemTotal i =
      Inr \<lparr>amount = amount (unitPrice i) * quantity i, currency = c\<rparr>"
    using Cons.prems nn by (simp add: calculateItemTotal_def new_Money_def not_less)
  have ad: "Money_add \<lparr>amount = t, currency = c\<rparr>
        \<lparr>amount = amount (unitPrice i) * quantity i, currency = c\<rparr> =
      Inr \<lparr>amount = t + amount (unitPrice i) * quantity i, currency = c\<rparr>"
    using Cons.prems(2) nn by (simp add: Money_add_def new_Money_def not_less)
  have "0 \<le> t + amount (unitPrice i) * quantity i"
    using Cons.prems(2) nn by simp
  with Cons.IH [of "t + amount (unitPrice i) * quantity i"] Cons.prems(1) it ad
  show ?case by simp
qed

lemma order_pending_created:
  "new_SalesOrder ''cust-1'' usd None 0 ''order-1'' = Inr order_pending"
  by (simp add: new_SalesOrder_def new_DateTime_def trim_def isWhiteSpace_def
      order_pending_def)

lemma product1_not_blank: "trim (id_ProductId product1) \<noteq> []"
  by (simp add: product1_def trim_def isWhiteSpace_def)

lemma product2_not_blank: "trim (id_ProductId product2) \<noteq> []"
  by (simp add: product2_def trim_def isWhiteSpace_def)

lemma order_pending_add1:
  "addItem order_pending (Some product1) 2 100 ''item-1'' =
     (Inr (), order_pending\<lparr>items := [item1]\<rparr>)"
  using addItem_ok [of order_pending product1 2 100 "''item-1''"] product1_not_blank
  by (simp add: canAddItems_def order_pending_def item1_def)

lemma order_pending_add2:
  "addItem (order_pending\<lparr>items := [item1]\<rparr>) (Some product2) 20 50 ''item-2'' =
     (Inr (), order_two_items)"
  using addItem_ok [of "order_pending\<lparr>items := [item1]\<rparr>" product2 20 50 "''item-2''"]
    product2_not_blank
  by (simp add: canAddItems_def order_pending_def item2_def order_two_items_def)

lemma reachable_order_pending: "reachable order_pending"
  using order_pending_created by (rule reachable.created)

lemma reachable_order_two_items: "reachable order_two_items"
proof -
  have "reachable (snd (addItem order_pending (Some product1) 2 100 ''item-1''))"
    using reachable_order_pending by (rule reachable.added)
  then have "reachable (order_pending\<lparr>items := [item1]\<rparr>)"
    by (simp add: order_pending_add1)
  then have "reachable
      (snd (addItem (order_pending\<lparr>items := [item1]\<rparr>) (Some product2) 20 50 ''item-2''))"
    by (rule reachable.added)
  then show ?thesis by (simp add: order_pending_add2)
qed

lemma blank_facts:
  "blankProductId None" "blankProductId (Some product_blank)"
  "\<not> blankProductId (Some product1)"
  by (simp_all add: blankProductId_def product_blank_def product1_def isWhiteSpace_def)

lemma order_states:
  "state order_pending = PENDING" "state order_confirmed = CONFIRMED"
  "state order_shipped = SHIPPED" "state order_canceled = CANCELED"
  by (simp_all add: order_pending_def order_confirmed_def order_shipped_def
      order_canceled_def)

text \<open>The guard of \<open>cancel\<close>, read as the set of states it accepts.\<close>

lemma cancel_succeeds_iff:
  "cancel ord =
     (if state ord = CONFIRMED \<or> state ord = SHIPPED
      then (Inr (), ord\<lparr>state := CANCELED\<rparr>)
      else (Inl (CannotCancel (state ord)), ord))"
  by (cases "state ord") (simp_all add: cancel_def)

section \<open>The life cycle of an order\<close>

text \<open>
  Claim C1 says that \<open>cancel\<close> succeeds exactly from PENDING and CONFIRMED and throws
  from SHIPPED and CANCELED, as the user story US005 does. The guard of the source
  tests PENDING and CANCELED instead: evaluated on the order of the user stories,
  \<open>cancel\<close> throws on the PENDING order, which stays PENDING, and succeeds on the
  SHIPPED order, which becomes CANCELED.
\<close>

theorem cancel_pending_and_shipped:
  "state order_pending = PENDING \<and>
   cancel order_pending = (Inl (CannotCancel PENDING), order_pending) \<and>
   state order_shipped = SHIPPED \<and>
   cancel order_shipped = (Inr (), order_canceled) \<and>
   state order_canceled = CANCELED"
  by (simp add: cancel_def order_pending_def order_shipped_def order_canceled_def)

text \<open>
  Claim C2. For every order, \<open>confirm\<close> succeeds exactly when the state is PENDING
  and then sets it to CONFIRMED, and \<open>ship\<close> succeeds exactly when the state is
  CONFIRMED and then sets it to SHIPPED, nothing else of the order changing; in every
  other state the operation throws an error that carries the current state, and the
  order is left as it was.
\<close>

theorem confirm_ship_transitions:
  "(fst (confirm ord) = Inr () \<longleftrightarrow> state ord = PENDING) \<and>
   (state ord = PENDING \<longrightarrow> confirm ord = (Inr (), ord\<lparr>state := CONFIRMED\<rparr>)) \<and>
   (state ord \<noteq> PENDING \<longrightarrow> confirm ord = (Inl (CannotConfirm (state ord)), ord)) \<and>
   (fst (ship ord) = Inr () \<longleftrightarrow> state ord = CONFIRMED) \<and>
   (state ord = CONFIRMED \<longrightarrow> ship ord = (Inr (), ord\<lparr>state := SHIPPED\<rparr>)) \<and>
   (state ord \<noteq> CONFIRMED \<longrightarrow> ship ord = (Inl (CannotShip (state ord)), ord))"
  by (simp add: confirm_def ship_def)

theorem confirm_ship_transitions_witness:
  "state order_pending = PENDING \<and>
   confirm order_pending = (Inr (), order_confirmed) \<and>
   ship order_pending = (Inl (CannotShip PENDING), order_pending) \<and>
   state order_confirmed = CONFIRMED \<and>
   ship order_confirmed = (Inr (), order_shipped) \<and>
   confirm order_confirmed = (Inl (CannotConfirm CONFIRMED), order_confirmed) \<and>
   state order_shipped = SHIPPED \<and>
   confirm order_shipped = (Inl (CannotConfirm SHIPPED), order_shipped) \<and>
   ship order_shipped = (Inl (CannotShip SHIPPED), order_shipped) \<and>
   state order_canceled = CANCELED \<and>
   confirm order_canceled = (Inl (CannotConfirm CANCELED), order_canceled) \<and>
   ship order_canceled = (Inl (CannotShip CANCELED), order_canceled)"
  using confirm_ship_transitions [of order_pending]
    confirm_ship_transitions [of order_confirmed]
    confirm_ship_transitions [of order_shipped]
    confirm_ship_transitions [of order_canceled]
  by (simp add: order_pending_def order_confirmed_def order_shipped_def order_canceled_def)

text \<open>
  Claim C3 says that the aggregate has no raw setter of the state, so that SHIPPED never
  becomes PENDING and PENDING never becomes SHIPPED directly. The class has the public
  setter \<open>set state\<close>: on the order that the constructor, \<open>confirm\<close> and \<open>ship\<close> brought
  to SHIPPED it sets PENDING, and on the PENDING order it sets SHIPPED, both without
  an error.
\<close>

theorem set_state_any_transition:
  "new_SalesOrder ''cust-1'' usd None 0 ''order-1'' = Inr order_pending \<and>
   confirm order_pending = (Inr (), order_confirmed) \<and>
   ship order_confirmed = (Inr (), order_shipped) \<and>
   state order_shipped = SHIPPED \<and>
   set_state order_shipped PENDING = (Inr (), order_pending) \<and>
   state order_pending = PENDING \<and>
   set_state order_pending SHIPPED = (Inr (), order_shipped)"
  using order_pending_created
  by (simp add: confirm_def ship_def set_state_def order_pending_def order_confirmed_def
      order_shipped_def)

section \<open>The constructor of Currency\<close>

text \<open>
  Claim C4 as stated fails: at run time the constructor accepts the codes \<open>us\<close> and
  \<open>USDX\<close>, which are not of the type \<open>CurrencyCode\<close>.
\<close>

theorem new_Currency_accepts_malformed:
  "new_Currency ''us'' = Inr \<lparr>code = ''us''\<rparr> \<and> \<not> CurrencyCode ''us'' \<and>
   new_Currency ''USDX'' = Inr \<lparr>code = ''USDX''\<rparr> \<and> \<not> CurrencyCode ''USDX''"
  by (simp add: new_Currency_def CurrencyCode_def)

text \<open>
  Claim C4, amended. For every input code the constructor of Currency succeeds at run
  time and stores the code as it is; it raises no error. The format, three upper case
  letters, is the type \<open>CurrencyCode\<close> of the parameter, which the compiler checks:
  a string is of that type exactly when it has three characters, each one of A to Z.
\<close>

theorem new_Currency_stores_code:
  "new_Currency s = Inr \<lparr>code = s\<rparr> \<and>
   (CurrencyCode s \<longleftrightarrow> length s = 3 \<and> list_all UpperCaseLetter s)"
proof -
  have "CurrencyCode s \<longleftrightarrow> length s = 3 \<and> list_all UpperCaseLetter s"
    by (auto simp: CurrencyCode_def split: list.splits)
  then show ?thesis by (simp add: new_Currency_def)
qed

theorem new_Currency_stores_code_witness:
  "new_Currency ''USD'' = Inr \<lparr>code = ''USD''\<rparr> \<and> CurrencyCode ''USD''"
  using new_Currency_stores_code [of "''USD''"]
  by (simp add: UpperCaseLetter_def)

section \<open>Adding an item\<close>

text \<open>
  Claim C5. For every order and every product identity, quantity and unit price amount,
  \<open>addItem\<close> reports the first violated condition in this order: a state that is not
  open (SHIPPED or CANCELED) gives the error of the closed order, whatever the other
  arguments are; else a blank product identity gives the error of the product id,
  whatever the quantity and the price are; else a quantity that is not positive gives
  the error of the quantity, whatever the price is; else a negative unit price gives
  the error of the price; and when no condition is violated the call succeeds.
\<close>

theorem addItem_priority:
  "(state ord = SHIPPED \<or> state ord = CANCELED \<longrightarrow>
      fst (addItem ord p q a uuid) = Inl (AddItemNotAllowed (state ord))) \<and>
   ((state ord = PENDING \<or> state ord = CONFIRMED) \<and> blankProductId p \<longrightarrow>
      fst (addItem ord p q a uuid) = Inl ProductIdEmpty) \<and>
   ((state ord = PENDING \<or> state ord = CONFIRMED) \<and> \<not> blankProductId p \<and> q \<le> 0 \<longrightarrow>
      fst (addItem ord p q a uuid) = Inl QuantityNotPositive) \<and>
   ((state ord = PENDING \<or> state ord = CONFIRMED) \<and> \<not> blankProductId p \<and> 0 < q \<and>
      a < 0 \<longrightarrow>
      fst (addItem ord p q a uuid) = Inl UnitPriceNegative) \<and>
   ((state ord = PENDING \<or> state ord = CONFIRMED) \<and> \<not> blankProductId p \<and> 0 < q \<and>
      0 \<le> a \<longrightarrow>
      fst (addItem ord p q a uuid) = Inr ())"
  by (cases "state ord"; cases p)
    (simp_all add: addItem_def canAddItems_def blankProductId_def trim_blank
      new_Money_def new_SalesOrderItem_def not_less not_le)

theorem addItem_priority_witness:
  "state order_shipped = SHIPPED \<and>
   fst (addItem order_shipped (Some product_blank) 0 (- 1) ''item-1'') =
     Inl (AddItemNotAllowed SHIPPED) \<and>
   state order_pending = PENDING \<and> blankProductId (Some product_blank) \<and>
   fst (addItem order_pending (Some product_blank) 0 (- 1) ''item-1'') =
     Inl ProductIdEmpty \<and>
   \<not> blankProductId (Some product1) \<and>
   fst (addItem order_pending (Some product1) 0 (- 1) ''item-1'') =
     Inl QuantityNotPositive \<and>
   fst (addItem order_pending (Some product1) 2 (- 1) ''item-1'') = Inl UnitPriceNegative \<and>
   fst (addItem order_pending (Some product1) 2 100 ''item-1'') = Inr ()"
  using addItem_priority [of order_shipped "Some product_blank" 0 "- 1" "''item-1''"]
    addItem_priority [of order_pending "Some product_blank" 0 "- 1" "''item-1''"]
    addItem_priority [of order_pending "Some product1" 0 "- 1" "''item-1''"]
    addItem_priority [of order_pending "Some product1" 2 "- 1" "''item-1''"]
    addItem_priority [of order_pending "Some product1" 2 100 "''item-1''"]
    order_states blank_facts
  by simp

text \<open>
  Claim C6. For every order in the state SHIPPED or CANCELED, \<open>addItem\<close> throws the
  error of the closed order and the order, its items among the rest, is unchanged. For
  every order in the state PENDING or CONFIRMED and valid inputs (a product identity
  that is not blank, a positive quantity, a unit price that is not negative),
  \<open>addItem\<close> appends exactly one item, made of the arguments, the id of the order and
  the currency of the order, and the number of items grows by exactly 1. Whenever
  \<open>addItem\<close> throws, the order after the call is the order before it.
\<close>

theorem addItem_effect:
  "(state ord = SHIPPED \<or> state ord = CANCELED \<longrightarrow>
      addItem ord p q a uuid = (Inl (AddItemNotAllowed (state ord)), ord)) \<and>
   ((state ord = PENDING \<or> state ord = CONFIRMED) \<and> \<not> blankProductId (Some x) \<and>
      0 < q \<and> 0 \<le> a \<longrightarrow>
      addItem ord (Some x) q a uuid =
        (Inr (),
         ord\<lparr>items := items ord @
           [\<lparr>orderId = id_SalesOrder ord, itemId = uuid, productId = x, quantity = q,
             unitPrice = \<lparr>amount = a, currency = currency_SalesOrder ord\<rparr>\<rparr>]\<rparr>) \<and>
      length (items (snd (addItem ord (Some x) q a uuid))) = length (items ord) + 1) \<and>
   (fst (addItem ord p q a uuid) = Inl e \<longrightarrow> snd (addItem ord p q a uuid) = ord)"
proof (intro conjI impI)
  assume "state ord = SHIPPED \<or> state ord = CANCELED"
  then show "addItem ord p q a uuid = (Inl (AddItemNotAllowed (state ord)), ord)"
    by (auto simp: addItem_def canAddItems_def)
next
  assume h: "(state ord = PENDING \<or> state ord = CONFIRMED) \<and> \<not> blankProductId (Some x) \<and>
      0 < q \<and> 0 \<le> a"
  then have c: "canAddItems ord" by (auto simp: canAddItems_def)
  from h have t: "trim (id_ProductId x) \<noteq> []"
    by (simp add: blankProductId_def trim_blank)
  from addItem_ok [OF c t, of q a uuid] h
  show eq: "addItem ord (Some x) q a uuid =
        (Inr (),
         ord\<lparr>items := items ord @
           [\<lparr>orderId = id_SalesOrder ord, itemId = uuid, productId = x, quantity = q,
             unitPrice = \<lparr>amount = a, currency = currency_SalesOrder ord\<rparr>\<rparr>]\<rparr>)"
    by simp
  show "length (items (snd (addItem ord (Some x) q a uuid))) = length (items ord) + 1"
    by (simp add: eq)
next
  assume f: "fst (addItem ord p q a uuid) = Inl e"
  obtain r ord' where eq: "addItem ord p q a uuid = (r, ord')"
    by (cases "addItem ord p q a uuid")
  from addItem_cases [OF eq] f eq show "snd (addItem ord p q a uuid) = ord" by auto
qed

theorem addItem_effect_witness:
  "state order_shipped = SHIPPED \<and>
   addItem order_shipped (Some product1) 2 100 ''item-1'' =
     (Inl (AddItemNotAllowed SHIPPED), order_shipped) \<and>
   state order_pending = PENDING \<and> \<not> blankProductId (Some product1) \<and>
   addItem order_pending (Some product1) 2 100 ''item-1'' =
     (Inr (), order_pending\<lparr>items := [item1]\<rparr>) \<and>
   length (items (snd (addItem order_pending (Some product1) 2 100 ''item-1''))) = 1 \<and>
   fst (addItem order_pending (Some product1) 0 100 ''item-1'') = Inl QuantityNotPositive \<and>
   snd (addItem order_pending (Some product1) 0 100 ''item-1'') = order_pending"
proof -
  have i: "items order_pending = []"
    by (simp add: order_pending_def)
  have q: "fst (addItem order_pending (Some product1) 0 100 ''item-1'') =
      Inl QuantityNotPositive"
    using product1_not_blank by (simp add: addItem_def canAddItems_def order_states)
  show ?thesis
    using addItem_effect
        [of order_shipped "Some product1" 2 100 "''item-1''" product1 QuantityNotPositive]
      addItem_effect
        [of order_pending "Some product1" 0 100 "''item-1''" product1 QuantityNotPositive]
      addItem_effect
        [of order_pending "Some product1" 2 100 "''item-1''" product1 QuantityNotPositive]
      order_states i q blank_facts(3) order_pending_add1
    by simp
qed

section \<open>The total of an order\<close>

text \<open>
  Claim C7. For every order built by the constructor and the public operations (so that
  every item was made by \<open>addItem\<close> and its unit price carries the currency of the
  order), \<open>calculateTotalAmount\<close> does not throw, returns the left fold of the item
  totals (unit price times quantity) from 0 in the currency of the order, and leaves the
  order as it was. The witness evaluates it on the order of the user story, items
  (100, 2) and (50, 20) in USD, where it returns Money(1200, USD), and on the order with
  no items, where it returns Money(0, USD).
\<close>

theorem calculateTotalAmount_fold:
  assumes "reachable ord"
  shows "calculateTotalAmount ord =
     (Inr \<lparr>amount =
             foldl (\<lambda>total item. total + amount (unitPrice item) * quantity item) 0
               (items ord),
           currency = currency_SalesOrder ord\<rparr>,
      ord)"
proof -
  from assms have "items_wf ord" by (rule reachable_items_wf)
  then show ?thesis
    by (simp add: calculateTotalAmount_def new_Money_def items_wf_def reduce_items_fold)
qed

theorem calculateTotalAmount_fold_witness:
  "reachable order_two_items \<and>
   calculateTotalAmount order_two_items =
     (Inr \<lparr>amount = 1200, currency = usd\<rparr>, order_two_items) \<and>
   reachable order_pending \<and>
   calculateTotalAmount order_pending = (Inr \<lparr>amount = 0, currency = usd\<rparr>, order_pending)"
  using calculateTotalAmount_fold [OF reachable_order_two_items]
    calculateTotalAmount_fold [OF reachable_order_pending]
    reachable_order_two_items reachable_order_pending
  by (simp add: order_two_items_def order_pending_def item1_def item2_def)

section \<open>Money\<close>

text \<open>
  Claim C8. For every two Money values, that is values the constructor returned,
  \<open>add\<close> throws the error of the currency mismatch, carrying both codes, exactly when
  the two currency codes differ, and otherwise returns a Money whose amount is the sum
  of the two amounts and whose currency is the receiver's. The operands are values:
  nothing can change them.
\<close>

theorem Money_add_currencies:
  assumes "new_Money a c = Inr m" and "new_Money b d = Inr n"
  shows "Money_add m n =
     (if code c \<noteq> code d then Inl (CurrencyMismatch (code c) (code d))
      else Inr \<lparr>amount = a + b, currency = c\<rparr>)"
proof -
  from assms(1) have m: "0 \<le> a" "m = \<lparr>amount = a, currency = c\<rparr>"
    by (auto dest: new_Money_Inr)
  from assms(2) have n: "0 \<le> b" "n = \<lparr>amount = b, currency = d\<rparr>"
    by (auto dest: new_Money_Inr)
  from m(1) n(1) have "\<not> a + b < 0" by simp
  then show ?thesis by (simp add: Money_add_def new_Money_def m(2) n(2))
qed

theorem Money_add_currencies_witness:
  "new_Money 100 usd = Inr \<lparr>amount = 100, currency = usd\<rparr> \<and>
   new_Money 50 usd = Inr \<lparr>amount = 50, currency = usd\<rparr> \<and>
   new_Money 50 pen = Inr \<lparr>amount = 50, currency = pen\<rparr> \<and>
   Money_add \<lparr>amount = 100, currency = usd\<rparr> \<lparr>amount = 50, currency = usd\<rparr> =
     Inr \<lparr>amount = 150, currency = usd\<rparr> \<and>
   Money_add \<lparr>amount = 100, currency = usd\<rparr> \<lparr>amount = 50, currency = pen\<rparr> =
     Inl (CurrencyMismatch ''USD'' ''PEN'')"
proof -
  have a: "new_Money 100 usd = Inr \<lparr>amount = 100, currency = usd\<rparr>"
    and b: "new_Money 50 usd = Inr \<lparr>amount = 50, currency = usd\<rparr>"
    and c: "new_Money 50 pen = Inr \<lparr>amount = 50, currency = pen\<rparr>"
    by (simp_all add: new_Money_def)
  show ?thesis
    using Money_add_currencies [OF a b] Money_add_currencies [OF a c] a b c
    by (simp add: usd_def pen_def)
qed

text \<open>What the guards of Money do give: no amount is ever negative.\<close>

lemma overflow_threshold_pos: "0 < overflow_threshold"
proof -
  have "(2::real) ^ 970 < 2 ^ 1024"
    by (rule power_strict_increasing) simp_all
  then show ?thesis by (simp add: overflow_threshold_def)
qed

lemma overflow_sign: "0 \<le> x \<Longrightarrow> \<not> number_less (overflow x) (Finite 0)"
  using overflow_threshold_pos by (simp add: overflow_def)

lemma number_plus_not_negative:
  assumes "\<not> number_less a (Finite 0)" and "\<not> number_less b (Finite 0)"
  shows "\<not> number_less (number_plus a b) (Finite 0)"
  using assms by (cases a; cases b) (simp_all add: overflow_sign not_less)

lemma number_times_not_negative:
  assumes "\<not> number_less a (Finite 0)" and "\<not> number_less b (Finite 0)"
  shows "\<not> number_less (number_times a b) (Finite 0)"
  using assms by (cases a; cases b) (simp_all add: overflow_sign not_less)

lemma not_negative_iff:
  "\<not> number_less a (Finite 0) \<longleftrightarrow> a = NaN \<or> number_greater_equal a (Finite 0)"
  by (cases a) (auto simp: not_less)

lemma Money_number_never_negative:
  "(number_less a (Finite 0) \<longrightarrow> new_Money_number a c = Inl (AmountNegative_number a)) \<and>
   (new_Money_number b c = Inr m \<longrightarrow> \<not> number_less (amount_number m) (Finite 0)) \<and>
   (number_less f (Finite 0) \<longrightarrow>
      Money_multiply_number m f = Inl (FactorNegative_number f)) \<and>
   (Money_add_number m n = Inr r \<longrightarrow> \<not> number_less (amount_number r) (Finite 0)) \<and>
   (Money_multiply_number m g = Inr r' \<longrightarrow> \<not> number_less (amount_number r') (Finite 0))"
  by (auto simp: new_Money_number_def Money_add_number_def Money_multiply_number_def
      split: if_splits)

lemma Money_number_arithmetic_succeeds:
  assumes "\<not> number_less (amount_number m) (Finite 0)"
  shows "\<not> number_less g (Finite 0) \<Longrightarrow>
      Money_multiply_number m g =
        Inr \<lparr>amount_number = number_times (amount_number m) g,
             currency_number = currency_number m\<rparr>"
    and "\<not> number_less (amount_number n) (Finite 0) \<Longrightarrow>
      code (currency_number m) = code (currency_number n) \<Longrightarrow>
      Money_add_number m n =
        Inr \<lparr>amount_number = number_plus (amount_number m) (amount_number n),
             currency_number = currency_number m\<rparr>"
  using assms
  by (simp_all add: Money_multiply_number_def Money_add_number_def new_Money_number_def
      number_times_not_negative number_plus_not_negative)

text \<open>
  Claim C9 says that every Money value has an amount \<open>\<ge> 0\<close> and that every successful
  arithmetic result has one again. The guard of the constructor is \<open>amount < 0\<close>, which
  is false for \<open>NaN\<close>: the constructor returns a Money whose amount is \<open>NaN\<close>, and
  \<open>NaN >= 0\<close> is false. Arithmetic reaches it from finite amounts that are not
  negative: the Money of amount \<open>10^308\<close> times 10 is a Money of amount infinity, and
  that one times 0 is a Money of amount \<open>NaN\<close>.
\<close>

theorem Money_amount_NaN:
  "new_Money_number NaN usd = Inr \<lparr>amount_number = NaN, currency_number = usd\<rparr> \<and>
   \<not> number_greater_equal NaN (Finite 0) \<and>
   new_Money_number (Finite (10 ^ 308)) usd =
     Inr \<lparr>amount_number = Finite (10 ^ 308), currency_number = usd\<rparr> \<and>
   number_greater_equal (Finite (10 ^ 308)) (Finite 0) \<and>
   number_greater_equal (Finite 10) (Finite 0) \<and>
   Money_multiply_number \<lparr>amount_number = Finite (10 ^ 308), currency_number = usd\<rparr>
       (Finite 10) =
     Inr \<lparr>amount_number = PosInfinity, currency_number = usd\<rparr> \<and>
   number_greater_equal PosInfinity (Finite 0) \<and>
   Money_multiply_number \<lparr>amount_number = PosInfinity, currency_number = usd\<rparr> (Finite 0) =
     Inr \<lparr>amount_number = NaN, currency_number = usd\<rparr>"
  by (simp add: new_Money_number_def Money_multiply_number_def overflow_def
      overflow_threshold_def)

section \<open>The constructor of ProductId\<close>

text \<open>
  Claim C10. The constructor of ProductId never throws: for every string argument, the
  empty string and the strings of white space among them, the ProductId holds that
  string as its id, and the generated identity is the id only when there is no
  argument. A blank id is rejected later, by \<open>addItem\<close>: on an order that takes
  items, a ProductId whose id is white space only gives the error of the product id
  and the order is unchanged.
\<close>

theorem new_ProductId_verbatim:
  "new_ProductId (Some s) uuid = Inr \<lparr>id_ProductId = s\<rparr> \<and>
   new_ProductId None uuid = Inr \<lparr>id_ProductId = uuid\<rparr> \<and>
   (canAddItems ord \<and> list_all isWhiteSpace s \<longrightarrow>
      addItem ord (Some \<lparr>id_ProductId = s\<rparr>) q a uuid' = (Inl ProductIdEmpty, ord))"
  by (simp add: new_ProductId_def addItem_def trim_blank)

theorem new_ProductId_verbatim_witness:
  "new_ProductId (Some []) ''uuid-1'' = Inr \<lparr>id_ProductId = []\<rparr> \<and>
   new_ProductId (Some ''  '') ''uuid-1'' = Inr \<lparr>id_ProductId = ''  ''\<rparr> \<and>
   new_ProductId None ''uuid-1'' = Inr \<lparr>id_ProductId = ''uuid-1''\<rparr> \<and>
   canAddItems order_pending \<and> list_all isWhiteSpace ''  '' \<and>
   addItem order_pending (Some \<lparr>id_ProductId = ''  ''\<rparr>) 2 100 ''item-1'' =
     (Inl ProductIdEmpty, order_pending)"
  using new_ProductId_verbatim [of "[]" "''uuid-1''" order_pending 2 100 "''item-1''"]
    new_ProductId_verbatim [of "''  ''" "''uuid-1''" order_pending 2 100 "''item-1''"]
  by (simp add: canAddItems_def order_pending_def isWhiteSpace_def)

end
